theory Spec2Isabelle
  imports Complex_Main "HOL-Library.Sublist"
begin

section \<open>The students table\<close>

text \<open>
  The program is one Python file: a class \<open>Database\<close> that talks to SQLite through SQL
  statements, and a class \<open>StudentManagementApp\<close> whose button handlers read four entry
  widgets and a tree view and call the \<open>Database\<close> methods.

  A row of the table \<open>students\<close> is the tuple \<open>(id, first_name, last_name, course, grade)\<close>.
  The column \<open>id\<close> is \<open>INTEGER PRIMARY KEY AUTOINCREMENT\<close>, the three text columns are
  \<open>TEXT NOT NULL\<close>, and \<open>grade\<close> is \<open>REAL NOT NULL CHECK(grade >= 0 AND grade <= 100)\<close>.
  Text is a \<open>string\<close>, one \<open>char\<close> per character. A stored grade is an IEEE double;
  every finite double is a real number and the schema only compares grades, so a stored
  grade is the \<open>real\<close> it denotes.
\<close>

record student =
  student_id :: int
  first_name :: string
  last_name :: string
  course :: string
  grade :: real

text \<open>
  A Python \<open>float\<close>, as \<open>float(...)\<close> returns it and as it is bound to a statement
  parameter: a finite value, an infinity or a NaN.
\<close>

datatype pyfloat = Finite real | PosInf | NegInf | NaN

text \<open>
  The exceptions the program can meet. \<open>ValueError\<close> carries its message, which the
  handlers show in a dialog.
\<close>

datatype error = IntegrityError | ValueError string | IndexError

text \<open>
  The database file holds the table, its rows in rowid order (the order in which
  \<open>SELECT * FROM students\<close> returns them), and the entry of \<open>sqlite_sequence\<close> that
  \<open>AUTOINCREMENT\<close> keeps: the largest rowid given out so far. Running out of disk
  space or of rowids, and I/O failures of the driver, are outside the model.
\<close>

record database =
  students :: "student list"
  sqlite_sequence :: int

definition empty_database :: database where
  "empty_database = \<lparr>students = [], sqlite_sequence = 0\<rparr>"

text \<open>
  \<open>AUTOINCREMENT\<close>: the new rowid is one more than the largest rowid that the table holds
  or has ever held.
\<close>

definition next_rowid :: "database \<Rightarrow> int" where
  "next_rowid d = fold max (map student_id (students d)) (sqlite_sequence d) + 1"

text \<open>
  The constraints on the column \<open>grade\<close>, applied to a bound parameter. SQLite stores a NaN
  as NULL, which \<open>NOT NULL\<close> refuses; the \<open>CHECK\<close> refuses the infinities and every finite
  value outside the closed interval from 0 to 100. The result is the value stored, or
  \<open>None\<close> when the statement fails.
\<close>

fun grade_column :: "pyfloat \<Rightarrow> real option" where
  "grade_column (Finite g) = (if 0 \<le> g \<and> g \<le> 100 then Some g else None)"
| "grade_column PosInf = None"
| "grade_column NegInf = None"
| "grade_column NaN = None"

text \<open>
  \<open>Database.add_student\<close>: \<open>INSERT INTO students (first_name, last_name, course, grade)
  VALUES (?, ?, ?, ?)\<close>. A Python \<open>str\<close> is never NULL, so \<open>NOT NULL\<close> accepts every
  text, the empty one too. A failed statement raises \<open>sqlite3.IntegrityError\<close> and
  changes nothing.
\<close>

definition Database_add_student ::
  "database \<Rightarrow> string \<Rightarrow> string \<Rightarrow> string \<Rightarrow> pyfloat \<Rightarrow> error + database" where
  "Database_add_student d fnm lnm crs g =
     (case grade_column g of
        None \<Rightarrow> Inl IntegrityError
      | Some v \<Rightarrow>
          Inr (d\<lparr>students := students d @
                    [\<lparr>student_id = next_rowid d, first_name = fnm, last_name = lnm,
                      course = crs, grade = v\<rparr>],
                 sqlite_sequence := next_rowid d\<rparr>))"

text \<open>
  \<open>Database.update_student\<close>: \<open>UPDATE students SET first_name = ?, last_name = ?,
  course = ?, grade = ? WHERE id = ?\<close>. The constraints are checked on the rows the
  statement writes: with no row of that id nothing is written and nothing fails.
\<close>

definition set_fields :: "string \<Rightarrow> string \<Rightarrow> string \<Rightarrow> real \<Rightarrow> student \<Rightarrow> student" where
  "set_fields fnm lnm crs v r =
     r\<lparr>first_name := fnm, last_name := lnm, course := crs, grade := v\<rparr>"

definition Database_update_student ::
  "database \<Rightarrow> int \<Rightarrow> string \<Rightarrow> string \<Rightarrow> string \<Rightarrow> pyfloat \<Rightarrow> error + database" where
  "Database_update_student d i fnm lnm crs g =
     (if i \<in> set (map student_id (students d)) then
        (case grade_column g of
           None \<Rightarrow> Inl IntegrityError
         | Some v \<Rightarrow>
             Inr (d\<lparr>students :=
                      map (\<lambda>r. if student_id r = i then set_fields fnm lnm crs v r else r)
                        (students d)\<rparr>))
      else Inr d)"

text \<open>\<open>Database.delete_student\<close>: \<open>DELETE FROM students WHERE id = ?\<close>.\<close>

definition Database_delete_student :: "database \<Rightarrow> int \<Rightarrow> database" where
  "Database_delete_student d i =
     d\<lparr>students := filter (\<lambda>r. student_id r \<noteq> i) (students d)\<rparr>"

text \<open>\<open>Database.get_all_students\<close>: \<open>SELECT * FROM students\<close>.\<close>

definition Database_get_all_students :: "database \<Rightarrow> student list" where
  "Database_get_all_students d = students d"

section \<open>Searching by name\<close>

text \<open>
  \<open>Database.search_students\<close> runs \<open>SELECT * FROM students WHERE first_name LIKE ? OR
  last_name LIKE ?\<close> with both parameters bound to \<open>'%' + search_text + '%'\<close>.
  SQLite's \<open>LIKE\<close>, with no \<open>ESCAPE\<close> clause and its default settings: in the pattern
  \<open>%\<close> matches any run of characters (the empty one too), \<open>_\<close> matches any one
  character, and every other character matches itself, where the letters A to Z of
  ASCII match their lower-case forms as well. \<open>sqlite3Tolower\<close> is the case folding
  SQLite uses; SQLite's limit on the length of a pattern is outside the model.
\<close>

definition sqlite3Tolower :: "char \<Rightarrow> char" where
  "sqlite3Tolower c =
     (case map_of (zip ''ABCDEFGHIJKLMNOPQRSTUVWXYZ'' ''abcdefghijklmnopqrstuvwxyz'') c of
        None \<Rightarrow> c
      | Some l \<Rightarrow> l)"

fun like :: "string \<Rightarrow> string \<Rightarrow> bool" where
  "like [] s = (s = [])"
| "like (p # ps) [] = (p = CHR ''%'' \<and> like ps [])"
| "like (p # ps) (c # cs) =
     (if p = CHR ''%'' then like ps (c # cs) \<or> like (p # ps) cs
      else if p = CHR ''_'' then like ps cs
      else sqlite3Tolower p = sqlite3Tolower c \<and> like ps cs)"

definition Database_search_students :: "database \<Rightarrow> string \<Rightarrow> student list" where
  "Database_search_students d search_text =
     filter (\<lambda>r. like (CHR ''%'' # search_text @ ''%'') (first_name r) \<or>
                  like (CHR ''%'' # search_text @ ''%'') (last_name r))
       (students d)"


section \<open>Exporting to CSV\<close>

text \<open>
  \<open>Database.export_to_csv\<close> opens the file with \<open>newline=''\<close> and writes through
  \<open>csv.writer\<close> with its default dialect: the delimiter is a comma, the quote character
  is the double quote, a quote inside a field is doubled, a row ends with CR LF, and a
  field is quoted only when it needs it (\<open>QUOTE_MINIMAL\<close>): when it holds a comma, a
  double quote, a CR or an LF. A row of one empty field is written as two double quotes.
\<close>

abbreviation CR :: char where "CR \<equiv> CHR 0x0D"
abbreviation LF :: char where "LF \<equiv> CHR 0x0A"
abbreviation dquote :: char where "dquote \<equiv> CHR 0x22"
abbreviation comma :: char where "comma \<equiv> CHR '',''"

definition csv_special :: "char \<Rightarrow> bool" where
  "csv_special c = (c = comma \<or> c = dquote \<or> c = CR \<or> c = LF)"

fun double_quotes :: "string \<Rightarrow> string" where
  "double_quotes [] = []"
| "double_quotes (c # cs) =
     (if c = dquote then dquote # dquote # double_quotes cs else c # double_quotes cs)"

definition csv_field :: "string \<Rightarrow> string" where
  "csv_field s = (if list_ex csv_special s then dquote # double_quotes s @ [dquote] else s)"

fun join :: "string \<Rightarrow> string list \<Rightarrow> string" where
  "join sep [] = []"
| "join sep [x] = x"
| "join sep (x # y # ys) = x @ sep @ join sep (y # ys)"

definition writerow :: "string list \<Rightarrow> string" where
  "writerow flds =
     (if flds = [[]] then [dquote, dquote] else join [comma] (map csv_field flds))
     @ [CR, LF]"

definition writerows :: "string list list \<Rightarrow> string" where
  "writerows rows = concat (map writerow rows)"

text \<open>
  The writer turns a field that is not a string into text with \<open>str\<close>. For the integer
  \<open>id\<close> that is its decimal numeral. For the float \<open>grade\<close> it is Python's shortest
  representation that reads back as the same double, a matter of floating-point
  formatting: it is the parameter \<open>str_float\<close> of the export.
\<close>

function str_nat :: "nat \<Rightarrow> string" where
  "str_nat n =
     (if n < 10 then [''0123456789'' ! n]
      else str_nat (n div 10) @ [''0123456789'' ! (n mod 10)])"
  by pat_completeness auto
termination
  by (relation "measure id") auto

declare str_nat.simps [simp del]

definition str_int :: "int \<Rightarrow> string" where
  "str_int i = (if i < 0 then CHR ''-'' # str_nat (nat (- i)) else str_nat (nat i))"

definition row_fields :: "(real \<Rightarrow> string) \<Rightarrow> student \<Rightarrow> string list" where
  "row_fields str_float r =
     [str_int (student_id r), first_name r, last_name r, course r, str_float (grade r)]"

definition header :: "string list" where
  "header = [''ID'', ''First Name'', ''Last Name'', ''Course'', ''Grade'']"

text \<open>
  \<open>Database.export_to_csv\<close>: the text written to the file. A failure to open or write
  the file is outside the model.
\<close>

definition Database_export_to_csv :: "(real \<Rightarrow> string) \<Rightarrow> database \<Rightarrow> string" where
  "Database_export_to_csv str_float d =
     writerow header @ writerows (map (row_fields str_float) (students d))"




text \<open>
  The number of lines of a text whose last line is terminated: a line ends at an LF, at
  a CR, or at a CR LF pair, as for Python's text files and \<open>str.splitlines\<close>.
\<close>

fun line_count :: "string \<Rightarrow> nat" where
  "line_count [] = 0"
| "line_count [c] = (if c = LF \<or> c = CR then 1 else 0)"
| "line_count (c # c' # cs) =
     (if c = LF then Suc (line_count (c' # cs))
      else if c = CR then (if c' = LF then Suc (line_count cs) else Suc (line_count (c' # cs)))
      else line_count (c' # cs))"





section \<open>The presentation layer\<close>

text \<open>
  The state of \<open>StudentManagementApp\<close>: the database, the items of the tree view (each
  holds the values of one row), the selected items as \<open>tree.selection()\<close> returns them,
  and the files written so far (path and text, the newest first). The four entry
  widgets are under the user's control (typing, or \<open>select_student\<close> copying a clicked
  row into them), so a handler takes their contents as the argument \<open>form\<close>. The tree
  view hands the id of a row back as the text of the integer, and SQLite compares that
  text with the integer column \<open>id\<close> as a number: the model keeps the integer.
\<close>

record form =
  first_name_entry :: string
  last_name_entry :: string
  course_entry :: string
  grade_entry :: string

record app =
  db :: database
  tree :: "student list"
  selection :: "student list"
  files :: "(string \<times> string) list"

text \<open>The message boxes, each with its title and its message.\<close>

datatype dialog = showinfo string string | showerror string string | showwarning string string

text \<open>
  What a handler leaves behind: the new state, the dialogs it showed, and the exception
  that left it uncaught, if any. Tkinter prints the traceback of such an exception to
  the standard error stream and goes on with the event loop; it shows no dialog.
\<close>

record outcome =
  state :: app
  dialogs :: "dialog list"
  uncaught :: "error option"

definition load_students :: "app \<Rightarrow> app" where
  "load_students a = a\<lparr>tree := tree a @ Database_get_all_students (db a)\<rparr>"

definition refresh_students :: "app \<Rightarrow> app" where
  "refresh_students a = load_students (a\<lparr>tree := [], selection := []\<rparr>)"

text \<open>\<open>StudentManagementApp.__init__\<close> on the database that the file holds.\<close>

definition StudentManagementApp_init :: "database \<Rightarrow> app" where
  "StudentManagementApp_init d =
     load_students \<lparr>db = d, tree = [], selection = [], files = []\<rparr>"

text \<open>
  The user clicks in the tree view: the selection becomes the items chosen among those
  displayed, in the order of the tree.
\<close>

definition tree_select :: "student list \<Rightarrow> app \<Rightarrow> app" where
  "tree_select chosen a = a\<lparr>selection := filter (\<lambda>r. r \<in> set chosen) (tree a)\<rparr>"

text \<open>The chained comparison \<open>0 <= grade <= 100\<close> on a Python float.\<close>

fun between_0_100 :: "pyfloat \<Rightarrow> bool" where
  "between_0_100 (Finite g) = (0 \<le> g \<and> g \<le> 100)"
| "between_0_100 PosInf = False"
| "between_0_100 NegInf = False"
| "between_0_100 NaN = False"

text \<open>
  The validation both handlers share:
  \<open>if not first_name or not last_name or not course or not (0 <= grade <= 100)\<close>.
\<close>

definition invalid_input :: "form \<Rightarrow> pyfloat \<Rightarrow> bool" where
  "invalid_input f g =
     (if first_name_entry f = [] then True
      else if last_name_entry f = [] then True
      else if course_entry f = [] then True
      else if between_0_100 g then False else True)"

definition except_ValueError :: "app \<Rightarrow> string \<Rightarrow> outcome" where
  "except_ValueError a msg =
     \<lparr>state = a, dialogs = [showerror ''Error'' (''Invalid data: '' @ msg)], uncaught = None\<rparr>"

text \<open>
  \<open>StudentManagementApp.add_student\<close>. Python's \<open>float\<close> is the parameter \<open>float_of\<close>:
  it returns the float a text denotes, or the message of the \<open>ValueError\<close> it raises.
  The handler catches \<open>ValueError\<close> only.
\<close>

definition StudentManagementApp_add_student ::
  "(string \<Rightarrow> string + pyfloat) \<Rightarrow> form \<Rightarrow> app \<Rightarrow> outcome" where
  "StudentManagementApp_add_student float_of f a =
     (case float_of (grade_entry f) of
        Inl msg \<Rightarrow> except_ValueError a msg
      | Inr g \<Rightarrow>
          if invalid_input f g then except_ValueError a ''Invalid input''
          else
            (case Database_add_student (db a) (first_name_entry f) (last_name_entry f)
                    (course_entry f) g of
               Inl e \<Rightarrow> \<lparr>state = a, dialogs = [], uncaught = Some e\<rparr>
             | Inr d \<Rightarrow>
                 \<lparr>state = refresh_students (a\<lparr>db := d\<rparr>),
                  dialogs = [showinfo ''Success'' ''Student added successfully''],
                  uncaught = None\<rparr>))"

text \<open>
  \<open>StudentManagementApp.update_student\<close>. \<open>self.tree.selection()[0]\<close> raises
  \<open>IndexError\<close> on an empty selection, inside a \<open>try\<close> whose only handler is
  \<open>except ValueError\<close>.
\<close>

definition StudentManagementApp_update_student ::
  "(string \<Rightarrow> string + pyfloat) \<Rightarrow> form \<Rightarrow> app \<Rightarrow> outcome" where
  "StudentManagementApp_update_student float_of f a =
     (case selection a of
        [] \<Rightarrow> \<lparr>state = a, dialogs = [], uncaught = Some IndexError\<rparr>
      | selected_student # _ \<Rightarrow>
          (case float_of (grade_entry f) of
             Inl msg \<Rightarrow> except_ValueError a msg
           | Inr g \<Rightarrow>
               if invalid_input f g then except_ValueError a ''Invalid input''
               else
                 (case Database_update_student (db a) (student_id selected_student)
                         (first_name_entry f) (last_name_entry f) (course_entry f) g of
                    Inl e \<Rightarrow> \<lparr>state = a, dialogs = [], uncaught = Some e\<rparr>
                  | Inr d \<Rightarrow>
                      \<lparr>state = refresh_students (a\<lparr>db := d\<rparr>),
                       dialogs = [showinfo ''Success'' ''Student updated successfully''],
                       uncaught = None\<rparr>)))"

text \<open>\<open>StudentManagementApp.delete_student\<close>: here the handler is \<open>except IndexError\<close>.\<close>

definition StudentManagementApp_delete_student :: "app \<Rightarrow> outcome" where
  "StudentManagementApp_delete_student a =
     (case selection a of
        [] \<Rightarrow>
          \<lparr>state = a, dialogs = [showwarning ''Warning'' ''No student selected''],
           uncaught = None\<rparr>
      | selected_student # _ \<Rightarrow>
          \<lparr>state = refresh_students
                     (a\<lparr>db := Database_delete_student (db a) (student_id selected_student)\<rparr>),
           dialogs = [showinfo ''Success'' ''Student deleted successfully''],
           uncaught = None\<rparr>)"

text \<open>\<open>StudentManagementApp.search_students\<close>: the tree view shows the rows found.\<close>

definition StudentManagementApp_search_students :: "string \<Rightarrow> app \<Rightarrow> outcome" where
  "StudentManagementApp_search_students search_text a =
     \<lparr>state = a\<lparr>tree := Database_search_students (db a) search_text, selection := []\<rparr>,
      dialogs = [], uncaught = None\<rparr>"

text \<open>
  \<open>StudentManagementApp.export_to_csv\<close>: \<open>file_path\<close> is what the file dialog returns,
  the empty text when the user cancels.
\<close>

definition StudentManagementApp_export_to_csv ::
  "(real \<Rightarrow> string) \<Rightarrow> string \<Rightarrow> app \<Rightarrow> outcome" where
  "StudentManagementApp_export_to_csv str_float file_path a =
     (if file_path = [] then \<lparr>state = a, dialogs = [], uncaught = None\<rparr>
      else
        \<lparr>state = a\<lparr>files := (file_path, Database_export_to_csv str_float (db a)) # files a\<rparr>,
         dialogs = [showinfo ''Success'' ''Data exported successfully''],
         uncaught = None\<rparr>)"

text \<open>
  The states the application can reach: it starts on an empty database file, and the
  user selects rows, presses the buttons with any contents of the entries, and closes
  and starts the program again on the file it left.
\<close>

inductive reachable :: "(string \<Rightarrow> string + pyfloat) \<Rightarrow> (real \<Rightarrow> string) \<Rightarrow> app \<Rightarrow> bool"
  for float_of :: "string \<Rightarrow> string + pyfloat" and str_float :: "real \<Rightarrow> string" where
  start: "reachable float_of str_float (StudentManagementApp_init empty_database)"
| restart: "reachable float_of str_float a \<Longrightarrow>
     reachable float_of str_float (StudentManagementApp_init (db a))"
| select: "reachable float_of str_float a \<Longrightarrow>
     reachable float_of str_float (tree_select chosen a)"
| add: "reachable float_of str_float a \<Longrightarrow>
     reachable float_of str_float (state (StudentManagementApp_add_student float_of f a))"
| update: "reachable float_of str_float a \<Longrightarrow>
     reachable float_of str_float (state (StudentManagementApp_update_student float_of f a))"
| delete: "reachable float_of str_float a \<Longrightarrow>
     reachable float_of str_float (state (StudentManagementApp_delete_student a))"
| search: "reachable float_of str_float a \<Longrightarrow>
     reachable float_of str_float (state (StudentManagementApp_search_students search_text a))"
| export: "reachable float_of str_float a \<Longrightarrow>
     reachable float_of str_float
       (state (StudentManagementApp_export_to_csv str_float file_path a))"



section \<open>Examples\<close>

text \<open>The tables, entries and parameters that the examples below use.\<close>

text \<open>A table of two records.\<close>

definition two_students :: database where
  "two_students =
     \<lparr>students =
        [\<lparr>student_id = 1, first_name = ''Anna'', last_name = ''Lee'', course = ''Math'',
          grade = 90\<rparr>,
         \<lparr>student_id = 2, first_name = ''Bob'', last_name = ''Smith'', course = ''Art'',
          grade = 70\<rparr>],
      sqlite_sequence = 2\<rparr>"

text \<open>
  An instance of the parameter \<open>float_of\<close>: Python's \<open>float\<close> on the four texts that
  the examples put into the grade entry, and a \<open>ValueError\<close> on every other text.
\<close>

definition float_of_example :: "string \<Rightarrow> string + pyfloat" where
  "float_of_example s =
     (if s = ''-1'' then Inr (Finite (- 1))
      else if s = ''101'' then Inr (Finite 101)
      else if s = ''90.5'' then Inr (Finite (181 / 2))
      else if s = ''nan'' then Inr NaN
      else Inl (''could not convert string to float: '' @ s))"


text \<open>The entries filled in for Anna Lee.\<close>

definition anna_form :: form where
  "anna_form = \<lparr>first_name_entry = ''Anna'', last_name_entry = ''Lee'',
     course_entry = ''Math'', grade_entry = ''90.5''\<rparr>"



section \<open>The Record Store\<close>

lemma fold_max_ge: "(a::int) \<le> fold max xs a"
  by (induction xs arbitrary: a) (auto intro: order_trans[OF max.cobounded2])

lemma fold_max_mem: "x \<in> set xs \<Longrightarrow> (x::int) \<le> fold max xs a"
proof (induction xs arbitrary: a)
  case Nil
  then show ?case by simp
next
  case (Cons y ys)
  show ?case
  proof (cases "x = y")
    case True
    have "max y a \<le> fold max ys (max y a)" by (rule fold_max_ge)
    with True show ?thesis by simp
  next
    case False
    with Cons show ?thesis by simp
  qed
qed

lemma next_rowid_fresh: "r \<in> set (students d) \<Longrightarrow> student_id r < next_rowid d"
  using fold_max_mem[of "student_id r" "map student_id (students d)" "sqlite_sequence d"]
  by (simp add: next_rowid_def)

lemma next_rowid_not_stored: "next_rowid d \<notin> student_id ` set (students d)"
  using next_rowid_fresh by fastforce

lemma grade_column_None: "grade_column g = None \<longleftrightarrow> \<not> between_0_100 g"
  by (cases g) auto


text \<open>
  Claim C2, as the specification states it, fails: the store's insert refuses a grade
  outside the interval from 0 to 100, but it accepts an empty text. On the empty table,
  inserting the first name \<open>''\<close> with the grade 50 stores a row with the id 1.
\<close>

theorem add_student_empty_name_counterexample:
  "Database_add_student empty_database [] ''Lee'' ''Math'' (Finite 50) =
     Inr \<lparr>students = [\<lparr>student_id = 1, first_name = [], last_name = ''Lee'',
                         course = ''Math'', grade = 50\<rparr>],
          sqlite_sequence = 1\<rparr>"
  by (simp add: Database_add_student_def empty_database_def next_rowid_def)

text \<open>
  Claim C2, amended: for every call of the store's insert, if the grade is not a number
  between 0 and 100 the call fails with an \<open>IntegrityError\<close> and returns no new table;
  otherwise, whatever the three texts are, it appends one row that holds the three
  texts and the grade under an id that no stored row has.
\<close>

theorem add_student_constraint:
  "(\<not> between_0_100 g \<longrightarrow> Database_add_student d fnm lnm crs g = Inl IntegrityError) \<and>
   (between_0_100 g \<longrightarrow>
      (\<exists>d' v. Database_add_student d fnm lnm crs g = Inr d' \<and> g = Finite v \<and>
         students d' = students d @
           [\<lparr>student_id = next_rowid d, first_name = fnm, last_name = lnm, course = crs,
             grade = v\<rparr>] \<and>
         next_rowid d \<notin> student_id ` set (students d)))"
proof (cases g)
  case (Finite v)
  then show ?thesis
    using next_rowid_not_stored[of d] by (simp add: Database_add_student_def)
qed (simp_all add: Database_add_student_def)

theorem add_student_constraint_witness:
  "Database_add_student empty_database ''Anna'' ''Lee'' ''Math'' (Finite 101)
     = Inl IntegrityError \<and>
   (\<exists>d'. Database_add_student empty_database ''Anna'' ''Lee'' ''Math'' (Finite 50) = Inr d' \<and>
      students d' = [\<lparr>student_id = 1, first_name = ''Anna'', last_name = ''Lee'',
                       course = ''Math'', grade = 50\<rparr>])"
  using add_student_constraint[of "Finite 101" empty_database "''Anna''" "''Lee''" "''Math''"]
    add_student_constraint[of "Finite 50" empty_database "''Anna''" "''Lee''" "''Math''"]
  by (simp add: empty_database_def next_rowid_def)


text \<open>
  Claim C6, as the specification states it, fails: an update of a stored record with a
  grade outside the interval from 0 to 100 replaces nothing, the \<open>CHECK\<close> constraint
  makes the statement fail.
\<close>

theorem update_student_out_of_range_counterexample:
  "Database_update_student two_students 1 ''Ann'' ''Li'' ''Law'' (Finite 101)
     = Inl IntegrityError"
  by (simp add: Database_update_student_def two_students_def)

text \<open>
  Claim C6, amended: for every table and every update by id, if the new grade is a
  number between 0 and 100 the update succeeds, the table keeps its length and its
  \<open>sqlite_sequence\<close>, the row at every position whose id is the given one becomes the
  given id with the four new fields, and the row at every other position is unchanged;
  if the grade is not such a number and a row has the id, the update fails with an
  \<open>IntegrityError\<close>; if no row has the id, the update succeeds and the database is
  unchanged.
\<close>

theorem update_student_frame:
  "(between_0_100 g \<longrightarrow>
      (\<exists>d' v. Database_update_student d i fnm lnm crs g = Inr d' \<and> g = Finite v \<and>
         sqlite_sequence d' = sqlite_sequence d \<and>
         length (students d') = length (students d) \<and>
         (\<forall>k < length (students d).
            students d' ! k =
              (if student_id (students d ! k) = i
               then \<lparr>student_id = i, first_name = fnm, last_name = lnm, course = crs,
                     grade = v\<rparr>
               else students d ! k)))) \<and>
   (\<not> between_0_100 g \<and> i \<in> student_id ` set (students d) \<longrightarrow>
      Database_update_student d i fnm lnm crs g = Inl IntegrityError) \<and>
   (i \<notin> student_id ` set (students d) \<longrightarrow>
      Database_update_student d i fnm lnm crs g = Inr d)"
proof (intro conjI impI)
  assume ok: "between_0_100 g"
  then obtain v where g: "g = Finite v" "0 \<le> v" "v \<le> 100"
    by (cases g) auto
  show "\<exists>d' v. Database_update_student d i fnm lnm crs g = Inr d' \<and> g = Finite v \<and>
         sqlite_sequence d' = sqlite_sequence d \<and>
         length (students d') = length (students d) \<and>
         (\<forall>k < length (students d).
            students d' ! k =
              (if student_id (students d ! k) = i
               then \<lparr>student_id = i, first_name = fnm, last_name = lnm, course = crs,
                     grade = v\<rparr>
               else students d ! k))"
  proof (cases "i \<in> student_id ` set (students d)")
    case True
    with g show ?thesis
      by (simp add: Database_update_student_def set_fields_def)
  next
    case False
    then have "\<forall>k < length (students d). student_id (students d ! k) \<noteq> i"
      by (metis imageI nth_mem)
    with False g show ?thesis
      by (simp add: Database_update_student_def)
  qed
next
  assume "\<not> between_0_100 g \<and> i \<in> student_id ` set (students d)"
  then show "Database_update_student d i fnm lnm crs g = Inl IntegrityError"
    by (simp add: Database_update_student_def grade_column_None[symmetric])
next
  assume "i \<notin> student_id ` set (students d)"
  then show "Database_update_student d i fnm lnm crs g = Inr d"
    by (simp add: Database_update_student_def)
qed

theorem update_student_frame_witness:
  "Database_update_student two_students 1 ''Ann'' ''Li'' ''Law'' (Finite 80) =
     Inr \<lparr>students =
        [\<lparr>student_id = 1, first_name = ''Ann'', last_name = ''Li'', course = ''Law'',
          grade = 80\<rparr>,
         \<lparr>student_id = 2, first_name = ''Bob'', last_name = ''Smith'', course = ''Art'',
          grade = 70\<rparr>],
      sqlite_sequence = 2\<rparr> \<and>
   Database_update_student two_students 2 ''Ann'' ''Li'' ''Law'' PosInf = Inl IntegrityError \<and>
   Database_update_student two_students 3 ''Ann'' ''Li'' ''Law'' (Finite 80) = Inr two_students"
  using update_student_frame[of "Finite 80" two_students 1 "''Ann''" "''Li''" "''Law''"]
    update_student_frame[of PosInf two_students 2 "''Ann''" "''Li''" "''Law''"]
    update_student_frame[of "Finite 80" two_students 3 "''Ann''" "''Li''" "''Law''"]
  by (simp add: two_students_def Database_update_student_def set_fields_def)

text \<open>
  Claim C7: for every table and every delete by id, no record of the result of
  \<open>get_all_students\<close> has that id; the records with another id are the same before and
  after, in the same order; \<open>sqlite_sequence\<close> is unchanged; and when no stored record has
  the id, the database is unchanged.
\<close>

theorem delete_student_removes:
  "(\<forall>r \<in> set (Database_get_all_students (Database_delete_student d i)). student_id r \<noteq> i) \<and>
   (\<forall>r. student_id r \<noteq> i \<longrightarrow>
      (r \<in> set (Database_get_all_students (Database_delete_student d i)) \<longleftrightarrow>
       r \<in> set (Database_get_all_students d))) \<and>
   filter (\<lambda>r. student_id r \<noteq> i) (Database_get_all_students d)
     = Database_get_all_students (Database_delete_student d i) \<and>
   sqlite_sequence (Database_delete_student d i) = sqlite_sequence d \<and>
   (i \<notin> student_id ` set (Database_get_all_students d) \<longrightarrow> Database_delete_student d i = d)"
proof -
  have "i \<notin> student_id ` set (students d) \<Longrightarrow>
          filter (\<lambda>r. student_id r \<noteq> i) (students d) = students d"
    by (rule filter_True) auto
  then show ?thesis
    by (auto simp: Database_get_all_students_def Database_delete_student_def)
qed

theorem delete_student_removes_witness:
  "Database_get_all_students (Database_delete_student two_students 1) =
     [\<lparr>student_id = 2, first_name = ''Bob'', last_name = ''Smith'', course = ''Art'',
       grade = 70\<rparr>] \<and>
   Database_delete_student two_students 3 = two_students"
  using delete_student_removes[of two_students 1] delete_student_removes[of two_students 3]
  by (simp add: two_students_def Database_get_all_students_def Database_delete_student_def)

section \<open>The presentation layer: validation and selection\<close>

lemma db_refresh_students [simp]: "db (refresh_students a) = db a"
  by (simp add: refresh_students_def load_students_def)

lemma tree_refresh_students [simp]:
  "tree (refresh_students a) = Database_get_all_students (db a)"
  by (simp add: refresh_students_def load_students_def)

lemma selection_refresh_students [simp]: "selection (refresh_students a) = []"
  by (simp add: refresh_students_def load_students_def)

lemma invalid_input_iff:
  "invalid_input f g \<longleftrightarrow>
     first_name_entry f = [] \<or> last_name_entry f = [] \<or> course_entry f = [] \<or>
     \<not> between_0_100 g"
  by (simp add: invalid_input_def)

text \<open>
  Claim C1, on the Update button: with no row selected the handler changes nothing, but
  it shows no dialog either. The \<open>IndexError\<close> of \<open>self.tree.selection()[0]\<close> is not a
  \<open>ValueError\<close>, so it leaves the handler uncaught.
\<close>

theorem update_without_selection:
  "selection a = [] \<Longrightarrow>
     StudentManagementApp_update_student float_of f a =
       \<lparr>state = a, dialogs = [], uncaught = Some IndexError\<rparr>"
  by (simp add: StudentManagementApp_update_student_def)

theorem update_without_selection_witness:
  "selection (StudentManagementApp_init two_students) = [] \<and>
   StudentManagementApp_update_student float_of_example anna_form
       (StudentManagementApp_init two_students) =
     \<lparr>state = StudentManagementApp_init two_students, dialogs = [],
      uncaught = Some IndexError\<rparr>"
proof -
  have h: "selection (StudentManagementApp_init two_students) = []"
    by (simp add: StudentManagementApp_init_def load_students_def)
  show ?thesis
    using h update_without_selection[OF h, of float_of_example anna_form] by simp
qed

text \<open>
  The Delete button reads the selection in the same way and catches the \<open>IndexError\<close>:
  with no row selected it shows the warning and changes nothing.
\<close>

lemma delete_without_selection:
  "selection a = [] \<Longrightarrow>
     StudentManagementApp_delete_student a =
       \<lparr>state = a, dialogs = [showwarning ''Warning'' ''No student selected''],
        uncaught = None\<rparr>"
  by (simp add: StudentManagementApp_delete_student_def)

text \<open>
  Claim C4: for every add attempt through the presentation layer in which a text entry
  is empty, or the grade entry reads as a float that is not between 0 and 100 (such as
  -1 or 101), the handler shows one error dialog, raises nothing and leaves the state,
  and with it the stored table, as it was.
\<close>

theorem add_invalid_rejected:
  assumes "first_name_entry f = [] \<or> last_name_entry f = [] \<or> course_entry f = [] \<or>
           (\<exists>g. float_of (grade_entry f) = Inr g \<and> \<not> between_0_100 g)"
  shows "(\<exists>msg. StudentManagementApp_add_student float_of f a =
            \<lparr>state = a, dialogs = [showerror ''Error'' (''Invalid data: '' @ msg)],
             uncaught = None\<rparr>) \<and>
         Database_get_all_students (db (state (StudentManagementApp_add_student float_of f a)))
           = Database_get_all_students (db a)"
proof (cases "float_of (grade_entry f)")
  case (Inl msg)
  then show ?thesis
    by (simp add: StudentManagementApp_add_student_def except_ValueError_def)
next
  case (Inr g)
  with assms have "invalid_input f g"
    by (auto simp: invalid_input_iff)
  with Inr show ?thesis
    by (simp add: StudentManagementApp_add_student_def except_ValueError_def)
qed

text \<open>
  Claim C5: for every add in which the grade entry reads as a number between 0 and 100
  and the three text entries are not empty, the store's insert succeeds, the handler
  reports success and raises nothing, and afterwards \<open>get_all_students\<close> returns the
  former records followed by the new one, whose id no former record has; the tree view
  shows that list.
\<close>

theorem add_valid_succeeds:
  assumes "float_of (grade_entry f) = Inr (Finite g)" and "0 \<le> g" and "g \<le> 100"
    and "first_name_entry f \<noteq> []" and "last_name_entry f \<noteq> []" and "course_entry f \<noteq> []"
  shows "\<exists>d'. Database_add_student (db a) (first_name_entry f) (last_name_entry f)
                 (course_entry f) (Finite g) = Inr d' \<and>
           StudentManagementApp_add_student float_of f a =
             \<lparr>state = \<lparr>db = d', tree = Database_get_all_students d', selection = [],
                       files = files a\<rparr>,
              dialogs = [showinfo ''Success'' ''Student added successfully''],
              uncaught = None\<rparr> \<and>
           Database_get_all_students d' = Database_get_all_students (db a) @
             [\<lparr>student_id = next_rowid (db a), first_name = first_name_entry f,
               last_name = last_name_entry f, course = course_entry f, grade = g\<rparr>] \<and>
           next_rowid (db a) \<notin> student_id ` set (Database_get_all_students (db a))"
  using assms next_rowid_not_stored[of "db a"]
  by (simp add: StudentManagementApp_add_student_def invalid_input_iff
      Database_add_student_def Database_get_all_students_def refresh_students_def
      load_students_def)


theorem add_invalid_rejected_witness:
  "(\<exists>msg. StudentManagementApp_add_student float_of_example
            (anna_form\<lparr>grade_entry := ''-1''\<rparr>) (StudentManagementApp_init two_students) =
      \<lparr>state = StudentManagementApp_init two_students,
       dialogs = [showerror ''Error'' (''Invalid data: '' @ msg)], uncaught = None\<rparr>) \<and>
   (\<exists>msg. StudentManagementApp_add_student float_of_example
            (anna_form\<lparr>grade_entry := ''101''\<rparr>) (StudentManagementApp_init two_students) =
      \<lparr>state = StudentManagementApp_init two_students,
       dialogs = [showerror ''Error'' (''Invalid data: '' @ msg)], uncaught = None\<rparr>) \<and>
   (\<exists>msg. StudentManagementApp_add_student float_of_example
            (anna_form\<lparr>course_entry := []\<rparr>) (StudentManagementApp_init two_students) =
      \<lparr>state = StudentManagementApp_init two_students,
       dialogs = [showerror ''Error'' (''Invalid data: '' @ msg)], uncaught = None\<rparr>)"
proof -
  have 1: "float_of_example (grade_entry (anna_form\<lparr>grade_entry := ''-1''\<rparr>))
             = Inr (Finite (- 1)) \<and> \<not> between_0_100 (Finite (- 1))"
    by (simp add: float_of_example_def)
  have 2: "float_of_example (grade_entry (anna_form\<lparr>grade_entry := ''101''\<rparr>))
             = Inr (Finite 101) \<and> \<not> between_0_100 (Finite 101)"
    by (simp add: float_of_example_def)
  have 3: "course_entry (anna_form\<lparr>course_entry := []\<rparr>) = []"
    by simp
  show ?thesis
    using add_invalid_rejected[of "anna_form\<lparr>grade_entry := ''-1''\<rparr>" float_of_example
        "StudentManagementApp_init two_students"]
      add_invalid_rejected[of "anna_form\<lparr>grade_entry := ''101''\<rparr>" float_of_example
        "StudentManagementApp_init two_students"]
      add_invalid_rejected[of "anna_form\<lparr>course_entry := []\<rparr>" float_of_example
        "StudentManagementApp_init two_students"]
      1 2 3
    by blast
qed

theorem add_valid_succeeds_witness:
  "StudentManagementApp_add_student float_of_example anna_form
       (StudentManagementApp_init empty_database) =
     \<lparr>state =
        \<lparr>db = \<lparr>students = [\<lparr>student_id = 1, first_name = ''Anna'', last_name = ''Lee'',
                               course = ''Math'', grade = 181 / 2\<rparr>],
                sqlite_sequence = 1\<rparr>,
         tree = [\<lparr>student_id = 1, first_name = ''Anna'', last_name = ''Lee'',
                   course = ''Math'', grade = 181 / 2\<rparr>],
         selection = [], files = []\<rparr>,
      dialogs = [showinfo ''Success'' ''Student added successfully''],
      uncaught = None\<rparr>"
proof -
  have "float_of_example (grade_entry anna_form) = Inr (Finite (181 / 2))"
    by (simp add: float_of_example_def anna_form_def)
  from add_valid_succeeds[where float_of = float_of_example and f = anna_form
      and g = "181 / 2" and a = "StudentManagementApp_init empty_database"] this
  show ?thesis
    by (simp add: anna_form_def StudentManagementApp_init_def load_students_def
        empty_database_def Database_add_student_def Database_get_all_students_def
        next_rowid_def)
qed











section \<open>Searching: the pattern and the substring\<close>









section \<open>The export and its round trip\<close>

















lemma line_count_crlf: "line_count (CR # LF # rest) = Suc (line_count rest)"
  by simp

















end
